theory Spec2Isabelle
  imports Main "HOL-Library.AList" "HOL-Library.Sublist"
begin

section \<open>Python values and exceptions\<close>

text \<open>
  The client in \<^verbatim>\<open>task/client.py\<close> handles data decoded from JSON without checking
  its shape, so the values it touches are modelled as one universe of Python values.
  A \<^verbatim>\<open>str\<close> is a \<open>string\<close> whose characters stand for the code points below 256.
  A \<^verbatim>\<open>float\<close> is carried by the text that Python prints for it. A \<^verbatim>\<open>dict\<close> decoded
  from JSON has \<^verbatim>\<open>str\<close> keys and is an association list read with \<open>map_of\<close>,
  in which a key is meant to occur once.
\<close>

datatype pyval =
    PNone
  | PBool bool
  | PInt int
  | PFloat string
  | PStr string
  | PList "pyval list"
  | PDict "(string \<times> pyval) list"

text \<open>
  Every \<^verbatim>\<open>raise\<close> of the source and every exception of a Python operation it uses is
  a value. \<open>PyException\<close> is the plain \<^verbatim>\<open>Exception\<close> class with its message;
  \<open>RequestException\<close> is a fault raised inside \<^verbatim>\<open>requests.post\<close>.
\<close>

datatype exn =
    ValueError string
  | TypeError
  | KeyError pyval
  | IndexError
  | AttributeError
  | JSONDecodeError
  | RequestException
  | PyException string

subsection \<open>Strings\<close>

text \<open>\<^verbatim>\<open>str.isspace\<close> on one character, for the code points below 256.\<close>

definition isspace :: "char \<Rightarrow> bool" where
  "isspace c = (of_char c \<in> {9, 10, 11, 12, 13, 28, 29, 30, 31, 32, 133, 160 :: nat})"

text \<open>\<^verbatim>\<open>str.strip()\<close> without arguments: leading and trailing whitespace removed.\<close>

definition strip :: "string \<Rightarrow> string" where
  "strip s = rev (dropWhile isspace (rev (dropWhile isspace s)))"

text \<open>\<^verbatim>\<open>str(n)\<close> for an integer: decimal digits, with a minus sign when negative.\<close>

definition digit_char :: "nat \<Rightarrow> char" where
  "digit_char d = char_of (48 + d)"

function str_nat :: "nat \<Rightarrow> string" where
  "str_nat n = (if n < 10 then [digit_char n] else str_nat (n div 10) @ [digit_char (n mod 10)])"
  by pat_completeness auto
termination
  by (relation "measure id") auto

declare str_nat.simps [simp del]

definition str_int :: "int \<Rightarrow> string" where
  "str_int i = (if i < 0 then CHR ''-'' # str_nat (nat (- i)) else str_nat (nat i))"

subsection \<open>Operations on Python values\<close>

text \<open>Truth value of an object, as \<^verbatim>\<open>if x:\<close> tests it.\<close>

fun truthy :: "pyval \<Rightarrow> bool" where
  "truthy PNone = False"
| "truthy (PBool b) = b"
| "truthy (PInt i) = (i \<noteq> 0)"
| "truthy (PFloat r) = (r \<noteq> ''0.0'' \<and> r \<noteq> ''-0.0'')"
| "truthy (PStr s) = (s \<noteq> [])"
| "truthy (PList xs) = (xs \<noteq> [])"
| "truthy (PDict d) = (d \<noteq> [])"

text \<open>
  \<^verbatim>\<open>x.get(key, default)\<close>: only a \<^verbatim>\<open>dict\<close> has the method; on any other value the
  attribute lookup raises \<^verbatim>\<open>AttributeError\<close>.
\<close>

fun py_get :: "pyval \<Rightarrow> string \<Rightarrow> pyval \<Rightarrow> exn + pyval" where
  "py_get (PDict d) k dflt = Inr (case map_of d k of None \<Rightarrow> dflt | Some v \<Rightarrow> v)"
| "py_get _ k dflt = Inl AttributeError"

text \<open>
  \<^verbatim>\<open>x[key]\<close> with a \<^verbatim>\<open>str\<close> key: a \<^verbatim>\<open>dict\<close> returns the value or raises
  \<^verbatim>\<open>KeyError\<close>; a \<^verbatim>\<open>list\<close> or \<^verbatim>\<open>str\<close> wants an integer index and every other
  value is not subscriptable, both \<^verbatim>\<open>TypeError\<close>.
\<close>

fun py_getitem :: "pyval \<Rightarrow> string \<Rightarrow> exn + pyval" where
  "py_getitem (PDict d) k = (case map_of d k of None \<Rightarrow> Inl (KeyError (PStr k)) | Some v \<Rightarrow> Inr v)"
| "py_getitem _ k = Inl TypeError"

text \<open>
  \<^verbatim>\<open>x[0]\<close>: first element of a \<^verbatim>\<open>list\<close>, first character of a \<^verbatim>\<open>str\<close>;
  a \<^verbatim>\<open>dict\<close> decoded from JSON has no key \<^verbatim>\<open>0\<close>.
\<close>

fun py_first :: "pyval \<Rightarrow> exn + pyval" where
  "py_first (PList []) = Inl IndexError"
| "py_first (PList (x # xs)) = Inr x"
| "py_first (PStr []) = Inl IndexError"
| "py_first (PStr (c # cs)) = Inr (PStr [c])"
| "py_first (PDict d) = Inl (KeyError (PInt 0))"
| "py_first _ = Inl TypeError"

text \<open>
  \<^verbatim>\<open>for x in v\<close>: the elements of a \<^verbatim>\<open>list\<close>, the characters of a \<^verbatim>\<open>str\<close>, the
  keys of a \<^verbatim>\<open>dict\<close>; any other value is not iterable.
\<close>

fun py_iter :: "pyval \<Rightarrow> exn + pyval list" where
  "py_iter (PList xs) = Inr xs"
| "py_iter (PStr s) = Inr (map (\<lambda>c. PStr [c]) s)"
| "py_iter (PDict d) = Inr (map (\<lambda>kv. PStr (fst kv)) d)"
| "py_iter _ = Inl TypeError"

text \<open>\<^verbatim>\<open>x or y\<close> on two lists, and on two dicts held as association lists.\<close>

definition py_or :: "'a list \<Rightarrow> 'a list \<Rightarrow> 'a list" where
  "py_or x y = (case x of [] \<Rightarrow> y | _ # _ \<Rightarrow> x)"

section \<open>Collaborators of the client\<close>

text \<open>
  Modelled from the spec: \<^verbatim>\<open>Role\<close> (module \<^verbatim>\<open>task.models.role\<close>, imported by the
  client, its source not at hand) is one of SYSTEM, USER, AI (assistant) and TOOL.
\<close>

datatype role = SYSTEM | USER | AI | TOOL

text \<open>
  Modelled from the spec: \<^verbatim>\<open>Message\<close> (module \<^verbatim>\<open>task.models.message\<close>, imported by
  the client, its source not at hand) has a role and four optional fields. The constructor
  stores whatever value it is given and never fails; a field left out is \<^verbatim>\<open>None\<close>.
\<close>

record message =
  role :: role
  content :: pyval
  tool_calls :: pyval
  name :: pyval
  tool_call_id :: pyval

text \<open>
  Modelled from the spec: \<^verbatim>\<open>BaseTool\<close> (module \<^verbatim>\<open>task.tools.base\<close>, imported by the
  client, its source not at hand) has a \<^verbatim>\<open>name\<close>, a \<^verbatim>\<open>schema\<close> and
  \<^verbatim>\<open>execute(arguments) -> str\<close>. A tool catches its own faults and reports them inside
  the string it returns, so \<open>execute\<close> is a function to strings. A tool is an ordinary
  object and therefore truthy.
\<close>

record tool =
  tool_name :: string
  schema :: pyval
  execute :: "pyval \<Rightarrow> string"

section \<open>\<^verbatim>\<open>DialClient\<close>\<close>

record client =
  self_endpoint :: string
  self_api_key :: string
  self_tools_dict :: "(string \<times> tool) list"
  self_tools_schemas :: "pyval list"

text \<open>
  \<^verbatim>\<open>{tool.name: tool for tool in tools}\<close>: a later tool replaces an earlier one of the
  same name, in the earlier one's position.
\<close>

definition tools_by_name :: "tool list \<Rightarrow> (string \<times> tool) list" where
  "tools_by_name ts = foldl (\<lambda>d t. AList.update (tool_name t) t d) [] ts"

text \<open>
  \<^verbatim>\<open>DialClient.__init__\<close>. The key is checked first; \<^verbatim>\<open>not api_key\<close> on a
  \<^verbatim>\<open>str\<close> tests for the empty string. Both comprehensions iterate
  \<^verbatim>\<open>tools\<close> before \<^verbatim>\<open>or\<close> is applied, so \<^verbatim>\<open>tools=None\<close> raises \<^verbatim>\<open>TypeError\<close>.
  The two \<^verbatim>\<open>print\<close> calls are not modelled.
\<close>

definition init :: "string \<Rightarrow> string \<Rightarrow> string \<Rightarrow> tool list option \<Rightarrow> exn + client" where
  "init endpoint deployment_name key tools =
     (if key = [] \<or> strip key = [] then Inl (ValueError ''API key cannot be null or empty'')
      else case tools of
        None \<Rightarrow> Inl TypeError
      | Some ts \<Rightarrow> Inr \<lparr>
          self_endpoint = endpoint @ ''/openai/deployments/'' @ deployment_name @ ''/chat/completions'',
          self_api_key = key,
          self_tools_dict = py_or (tools_by_name ts) [],
          self_tools_schemas = py_or (map schema ts) [] \<rparr>)"

text \<open>
  \<^verbatim>\<open>DialClient._call_tool\<close>. \<^verbatim>\<open>self.__tools_dict.get(function_name)\<close> hashes its
  argument first: a \<^verbatim>\<open>list\<close> or \<^verbatim>\<open>dict\<close> raises \<^verbatim>\<open>TypeError\<close>. The keys are
  \<^verbatim>\<open>str\<close>, so no value of another type is found, and the f-string then prints that value
  with \<^verbatim>\<open>str()\<close>.
\<close>

fun call_tool :: "client \<Rightarrow> pyval \<Rightarrow> pyval \<Rightarrow> exn + string" where
  "call_tool c (PStr function_name) arguments =
     (case map_of (self_tools_dict c) function_name of
        Some t \<Rightarrow> Inr (execute t arguments)
      | None \<Rightarrow> Inr (''Unknown function: '' @ function_name))"
| "call_tool c (PList xs) arguments = Inl TypeError"
| "call_tool c (PDict d) arguments = Inl TypeError"
| "call_tool c PNone arguments = Inr (''Unknown function: '' @ ''None'')"
| "call_tool c (PBool b) arguments = Inr (''Unknown function: '' @ (if b then ''True'' else ''False''))"
| "call_tool c (PInt i) arguments = Inr (''Unknown function: '' @ str_int i)"
| "call_tool c (PFloat r) arguments = Inr (''Unknown function: '' @ r)"

subsection \<open>The world outside the client\<close>

text \<open>
  \<^verbatim>\<open>json.loads\<close> and \<^verbatim>\<open>requests.post\<close> are library calls, taken as parameters.
  The decoder maps a text to the value it denotes, or to \<open>None\<close> where it raises
  \<^verbatim>\<open>JSONDecodeError\<close>; \<^verbatim>\<open>response.json()\<close> applies the same decoder to the body.
  The transport answers each request from the list of all requests sent so far, the newest
  last, so a server may answer the same request differently the second time. A request
  holds the conversation as it is when sent (\<^verbatim>\<open>Message.to_dict\<close> is applied on the way
  out and is not modelled).
\<close>

record request =
  url :: string
  headers :: "(string \<times> string) list"
  json_messages :: "message list"
  json_tools :: "pyval list"

record response =
  status_code :: int
  resp_text :: string

record env =
  json_loads :: "string \<Rightarrow> pyval option"
  requests_post :: "request list \<Rightarrow> exn + response"

text \<open>\<^verbatim>\<open>json.loads(v)\<close>: only a \<^verbatim>\<open>str\<close> is decoded (JSON data holds no bytes).\<close>

fun loads_value :: "env \<Rightarrow> pyval \<Rightarrow> exn + pyval" where
  "loads_value e (PStr s) = (case json_loads e s of None \<Rightarrow> Inl JSONDecodeError | Some v \<Rightarrow> Inr v)"
| "loads_value e _ = Inl TypeError"

subsection \<open>Tool-call processing\<close>

text \<open>
  One pass through the body of the \<^verbatim>\<open>for\<close> loop of
  \<^verbatim>\<open>DialClient._process_tool_calls\<close>: the message built for one tool call, or the first
  exception raised on the way. The \<^verbatim>\<open>print\<close> is not modelled.
\<close>

definition process_one :: "env \<Rightarrow> client \<Rightarrow> pyval \<Rightarrow> exn + message" where
  "process_one e c tool_call =
     (case py_getitem tool_call ''id'' of Inl x \<Rightarrow> Inl x | Inr call_id \<Rightarrow>
      (case py_getitem tool_call ''function'' of Inl x \<Rightarrow> Inl x | Inr function \<Rightarrow>
       (case py_getitem function ''name'' of Inl x \<Rightarrow> Inl x | Inr function_name \<Rightarrow>
        (case py_getitem function ''arguments'' of Inl x \<Rightarrow> Inl x | Inr argument_text \<Rightarrow>
         (case loads_value e argument_text of Inl x \<Rightarrow> Inl x | Inr arguments \<Rightarrow>
          (case call_tool c function_name arguments of Inl x \<Rightarrow> Inl x | Inr tool_execution_result \<Rightarrow>
             Inr \<lparr> role = TOOL, content = PStr tool_execution_result, tool_calls = PNone,
                   name = function_name, tool_call_id = call_id \<rparr>))))))"

text \<open>The loop: \<open>tool_messages\<close> grows by one message per call; an exception ends it.\<close>

fun process_loop :: "env \<Rightarrow> client \<Rightarrow> pyval list \<Rightarrow> message list \<Rightarrow> exn + message list" where
  "process_loop e c [] tool_messages = Inr tool_messages"
| "process_loop e c (tool_call # rest) tool_messages =
     (case process_one e c tool_call of
        Inl x \<Rightarrow> Inl x
      | Inr m \<Rightarrow> process_loop e c rest (tool_messages @ [m]))"

definition process_tool_calls :: "env \<Rightarrow> client \<Rightarrow> pyval \<Rightarrow> exn + message list" where
  "process_tool_calls e c calls =
     (case py_iter calls of Inl x \<Rightarrow> Inl x | Inr tcs \<Rightarrow> process_loop e c tcs [])"

subsection \<open>The completion loop\<close>

text \<open>
  Lines 67 to 75, 112 and 114 of \<^verbatim>\<open>get_completion\<close>: from the response to its first
  choice, or to the exception raised.
\<close>

definition first_choice :: "env \<Rightarrow> response \<Rightarrow> exn + pyval" where
  "first_choice e response =
     (if status_code response = 200 then
        (case json_loads e (resp_text response) of None \<Rightarrow> Inl JSONDecodeError | Some data \<Rightarrow>
         (case py_get data ''choices'' (PList []) of Inl x \<Rightarrow> Inl x | Inr choices \<Rightarrow>
            if truthy choices then py_first choices
            else Inl (ValueError ''No Choice has been present in the response'')))
      else Inl (PyException (''HTTP '' @ str_int (status_code response) @ '': '' @ resp_text response)))"

text \<open>Lines 81 to 92: the AI-role message built from the choice.\<close>

definition ai_response_of :: "pyval \<Rightarrow> exn + message" where
  "ai_response_of choice =
     (case py_get choice ''message'' (PDict []) of Inl x \<Rightarrow> Inl x | Inr message_data \<Rightarrow>
      (case py_get message_data ''content'' PNone of Inl x \<Rightarrow> Inl x | Inr content_value \<Rightarrow>
       (case py_get message_data ''tool_calls'' PNone of Inl x \<Rightarrow> Inl x | Inr calls \<Rightarrow>
          Inr \<lparr> role = AI, content = content_value, tool_calls = calls,
                name = PNone, tool_call_id = PNone \<rparr>)))"

text \<open>
  The caller's list \<open>messages\<close> is mutated in place and stays mutated when an exception
  leaves the call, so it is part of the state that every outcome returns, next to the log
  \<open>sent\<close> of the requests issued.
\<close>

record run_state =
  messages :: "message list"
  sent :: "request list"

datatype outcome = Returned message | Raised exn | Running

definition build_request :: "client \<Rightarrow> message list \<Rightarrow> request" where
  "build_request c ms =
     \<lparr> url = self_endpoint c,
       headers = [(''api-key'', self_api_key c), (''Content-Type'', ''application/json'')],
       json_messages = ms,
       json_tools = self_tools_schemas c \<rparr>"

text \<open>
  \<^verbatim>\<open>DialClient.get_completion\<close>. The recursion of the source has no bound; the first
  argument counts the calls that may still be entered, and \<open>Running\<close> is the outcome of a
  run that is still recursing when they are used up, with the state it has reached.
  \<^verbatim>\<open>print_request\<close> only selects what is printed and is left out with the printing.
\<close>

fun get_completion :: "env \<Rightarrow> client \<Rightarrow> nat \<Rightarrow> run_state \<Rightarrow> outcome \<times> run_state" where
  "get_completion e c 0 st = (Running, st)"
| "get_completion e c (Suc n) st =
     (let st1 = st\<lparr>sent := sent st @ [build_request c (messages st)]\<rparr> in
      case requests_post e (sent st1) of Inl x \<Rightarrow> (Raised x, st1) | Inr response \<Rightarrow>
      (case first_choice e response of Inl x \<Rightarrow> (Raised x, st1) | Inr choice \<Rightarrow>
       (case ai_response_of choice of Inl x \<Rightarrow> (Raised x, st1) | Inr ai_response \<Rightarrow>
        (case py_get choice ''finish_reason'' PNone of Inl x \<Rightarrow> (Raised x, st1) | Inr finish_reason \<Rightarrow>
           if finish_reason = PStr ''tool_calls'' then
             (let st2 = st1\<lparr>messages := messages st1 @ [ai_response]\<rparr> in
              case process_tool_calls e c (tool_calls ai_response) of
                Inl x \<Rightarrow> (Raised x, st2)
              | Inr tool_messages \<Rightarrow>
                  get_completion e c n (st2\<lparr>messages := messages st2 @ tool_messages\<rparr>))
           else (Returned ai_response, st1)))))"

section \<open>A sample tool, decoder and transport\<close>

text \<open>
  Concrete collaborators on which the theorems below are run: a tool that adds two
  integers, a client holding it, a decoder that knows a handful of JSON texts (and rejects
  every other text), and a transport that plays back a fixed list of responses.
\<close>

definition sum_tool :: tool where
  "sum_tool = \<lparr> tool_name = ''sum'', schema = PDict [(''name'', PStr ''sum'')],
     execute = (\<lambda>args. case args of
        PDict d \<Rightarrow> (case (map_of d ''a'', map_of d ''b'') of
            (Some (PInt x), Some (PInt y)) \<Rightarrow> str_int (x + y)
          | _ \<Rightarrow> ''Error: expected integers a and b'')
      | _ \<Rightarrow> ''Error: expected integers a and b'') \<rparr>"

definition sample_client :: client where
  "sample_client = \<lparr> self_endpoint = ''https://host/openai/deployments/gpt/chat/completions'',
     self_api_key = ''key'', self_tools_dict = [(''sum'', sum_tool)],
     self_tools_schemas = [PDict [(''name'', PStr ''sum'')]] \<rparr>"

definition arguments_text :: string where
  \<open>arguments_text = ''{"a":1,"b":2}''\<close>

definition call_fields :: "string \<Rightarrow> (string \<times> pyval) list" where
  "call_fields args = [(''name'', PStr ''sum''), (''arguments'', PStr args)]"

definition sum_call_dict :: "string \<Rightarrow> string \<Rightarrow> (string \<times> pyval) list" where
  "sum_call_dict call_id args =
     [(''id'', PStr call_id), (''type'', PStr ''function''), (''function'', PDict (call_fields args))]"

definition sum_call :: "string \<Rightarrow> string \<Rightarrow> pyval" where
  "sum_call call_id args = PDict (sum_call_dict call_id args)"

definition stop_body :: string where
  \<open>stop_body = ''{"choices":[{"message":{"content":"3"},"finish_reason":"stop"}]}''\<close>

definition calls_body :: string where
  \<open>calls_body = ''{"choices":[{"message":{"content":null,"tool_calls":[{"id":"c1","type":"function","function":{"name":"sum","arguments":"{''
     @ [CHR 0x5C] @ ''"a'' @ [CHR 0x5C] @ ''":1,'' @ [CHR 0x5C] @ ''"b'' @ [CHR 0x5C]
     @ ''":2}"}}]},"finish_reason":"tool_calls"}]}''\<close>

definition broken_body :: string where
  \<open>broken_body = ''{"choices":[{"message":{"content":null,"tool_calls":[{"id":"c1","type":"function","function":{"name":"sum","arguments":"{"}}]},"finish_reason":"tool_calls"}]}''\<close>

definition no_calls_body :: string where
  \<open>no_calls_body = ''{"choices":[{"message":{"content":null},"finish_reason":"tool_calls"}]}''\<close>

definition choice_body :: "(string \<times> pyval) list \<Rightarrow> string \<Rightarrow> pyval" where
  "choice_body message_data reason =
     PDict [(''choices'', PList [PDict [(''message'', PDict message_data),
                                        (''finish_reason'', PStr reason)]])]"

definition sample_loads :: "string \<Rightarrow> pyval option" where
  "sample_loads s =
     (if s = arguments_text then Some (PDict [(''a'', PInt 1), (''b'', PInt 2)])
      else if s = stop_body then Some (choice_body [(''content'', PStr ''3'')] ''stop'')
      else if s = calls_body then
        Some (choice_body [(''content'', PNone),
                           (''tool_calls'', PList [sum_call ''c1'' arguments_text])] ''tool_calls'')
      else if s = broken_body then
        Some (choice_body [(''content'', PNone),
                           (''tool_calls'', PList [sum_call ''c1'' ''{''])] ''tool_calls'')
      else if s = no_calls_body then Some (choice_body [(''content'', PNone)] ''tool_calls'')
      else None)"

definition scripted :: "response list \<Rightarrow> request list \<Rightarrow> exn + response" where
  "scripted rs reqs =
     (if reqs \<noteq> [] \<and> length reqs \<le> length rs then Inr (rs ! (length reqs - 1))
      else Inl RequestException)"

definition sample_env :: "response list \<Rightarrow> env" where
  "sample_env rs = \<lparr> json_loads = sample_loads, requests_post = scripted rs \<rparr>"

definition ok :: "string \<Rightarrow> response" where
  "ok body = \<lparr> status_code = 200, resp_text = body \<rparr>"

definition user_says :: "string \<Rightarrow> message" where
  "user_says s = \<lparr> role = USER, content = PStr s, tool_calls = PNone,
                   name = PNone, tool_call_id = PNone \<rparr>"

section \<open>Properties of construction\<close>

lemma strip_empty_iff: "strip s = [] \<longleftrightarrow> list_all isspace s"
proof -
  have "strip s = [] \<longleftrightarrow> (\<forall>c \<in> set (dropWhile isspace s). isspace c)"
    by (simp add: strip_def dropWhile_eq_Nil_conv)
  also have "\<dots> \<longleftrightarrow> dropWhile isspace s = []"
  proof
    assume a: "\<forall>c \<in> set (dropWhile isspace s). isspace c"
    show "dropWhile isspace s = []"
    proof (rule ccontr)
      assume n: "dropWhile isspace s \<noteq> []"
      then have "\<not> isspace (hd (dropWhile isspace s))" by (rule hd_dropWhile)
      moreover from n have "hd (dropWhile isspace s) \<in> set (dropWhile isspace s)" by simp
      ultimately show False using a by blast
    qed
  next
    assume e: "dropWhile isspace s = []"
    show "\<forall>c \<in> set (dropWhile isspace s). isspace c" unfolding e by simp
  qed
  also have "\<dots> \<longleftrightarrow> list_all isspace s"
    by (simp add: dropWhile_eq_Nil_conv list_all_iff)
  finally show ?thesis .
qed

text \<open>
  Claim C4. A key that is empty or consists of whitespace only makes \<^verbatim>\<open>__init__\<close> raise
  the \<^verbatim>\<open>ValueError\<close> of line 22, whatever the other arguments are. A key that is
  non-empty in the sense the first half leaves over, that is with at least one character
  that is not whitespace, never raises a \<^verbatim>\<open>ValueError\<close>, and with a tool list given
  the construction returns a client. The constructor neither receives nor calls the
  transport, so no request is attempted on either path.
\<close>

theorem init_key_check:
  "(key = [] \<or> list_all isspace key \<longrightarrow>
      init ep dn key tools = Inl (ValueError ''API key cannot be null or empty''))
   \<and> (\<not> (key = [] \<or> list_all isspace key) \<longrightarrow>
      (\<forall>m. init ep dn key tools \<noteq> Inl (ValueError m))
      \<and> (\<forall>ts. \<exists>c. init ep dn key (Some ts) = Inr c))"
  by (auto simp: init_def strip_empty_iff split: option.splits)

theorem init_key_check_witness:
  "list_all isspace [CHR 0x20, CHR 0x09]
   \<and> init ''https://host'' ''gpt'' [CHR 0x20, CHR 0x09] (Some []) = Inl (ValueError ''API key cannot be null or empty'')
   \<and> init ''https://host'' ''gpt'' '''' (Some []) = Inl (ValueError ''API key cannot be null or empty'')
   \<and> \<not> list_all isspace ''key''
   \<and> init ''https://host'' ''gpt'' ''key'' (Some []) \<noteq> Inl (ValueError ''API key cannot be null or empty'')"
  using init_key_check [of "[CHR 0x20, CHR 0x09]" "''https://host''" "''gpt''" "Some []"]
    init_key_check [of "''''" "''https://host''" "''gpt''" "Some []"]
    init_key_check [of "''key''" "''https://host''" "''gpt''" "Some []"]
  by (simp add: isspace_def)

text \<open>
  Claim C5. With an empty tool list the construction returns a client whose registry and
  schema list are both empty. With the tool list absent (\<^verbatim>\<open>tools=None\<close>, the default of
  the signature) it does not: the comprehension of line 30 iterates \<^verbatim>\<open>None\<close> and raises
  \<^verbatim>\<open>TypeError\<close> before \<^verbatim>\<open>or {}\<close> is reached.
\<close>

theorem init_without_tools:
  "init ''https://host'' ''gpt'' ''key'' None = Inl TypeError
   \<and> init ''https://host'' ''gpt'' ''key'' (Some []) =
       Inr \<lparr> self_endpoint = ''https://host/openai/deployments/gpt/chat/completions'',
             self_api_key = ''key'', self_tools_dict = [], self_tools_schemas = [] \<rparr>"
  by (simp add: init_def strip_def isspace_def py_or_def tools_by_name_def)

section \<open>Properties of tool dispatch and tool-call processing\<close>

text \<open>
  Claim C6. For a name that the registry does not hold, \<^verbatim>\<open>_call_tool\<close> returns the
  string \<^verbatim>\<open>Unknown function: \<close> followed by the name, and returns it normally; for a
  name that the registry maps to a tool, it returns what that tool's \<^verbatim>\<open>execute\<close> returns
  on the given arguments, unchanged.
\<close>

theorem call_tool_dispatch:
  "(map_of (self_tools_dict c) fn = None \<longrightarrow>
      call_tool c (PStr fn) arguments = Inr (''Unknown function: '' @ fn))
   \<and> (map_of (self_tools_dict c) fn = Some t \<longrightarrow>
      call_tool c (PStr fn) arguments = Inr (execute t arguments))"
  by simp

lemma sample_sum: "execute sum_tool (PDict [(''a'', PInt 1), (''b'', PInt 2)]) = ''3''"
proof -
  have "str_int 3 = ''3''" by code_simp
  then show ?thesis by (simp add: sum_tool_def)
qed

theorem call_tool_dispatch_witness:
  "call_tool sample_client (PStr ''mul'') (PDict []) = Inr ''Unknown function: mul''
   \<and> call_tool sample_client (PStr ''sum'') (PDict [(''a'', PInt 1), (''b'', PInt 2)]) = Inr ''3''"
  using call_tool_dispatch [of sample_client "''mul''" "PDict []" sum_tool]
    call_tool_dispatch [of sample_client "''sum''" "PDict [(''a'', PInt 1), (''b'', PInt 2)]" sum_tool]
  by (simp add: sample_client_def sample_sum)

lemma process_one_wf:
  assumes "map_of d ''id'' = Some i" "map_of d ''function'' = Some (PDict f)"
    "map_of f ''name'' = Some (PStr nm)" "map_of f ''arguments'' = Some (PStr a)"
  shows "process_one e c (PDict d) =
    (case json_loads e a of
       None \<Rightarrow> Inl JSONDecodeError
     | Some v \<Rightarrow> (case call_tool c (PStr nm) v of
         Inl x \<Rightarrow> Inl x
       | Inr s \<Rightarrow> Inr \<lparr> role = TOOL, content = PStr s, tool_calls = PNone,
                        name = PStr nm, tool_call_id = i \<rparr>))"
  using assms by (simp add: process_one_def split: option.splits sum.splits)

lemma call_tool_str: "\<exists>s. call_tool c (PStr nm) v = Inr s"
  by (simp split: option.splits)

lemma process_loop_all_ok:
  assumes "\<forall>tc \<in> set tcs. \<exists>m. process_one e c tc = Inr m"
  shows "\<exists>ms. process_loop e c tcs acc = Inr (acc @ ms) \<and> length ms = length tcs
           \<and> (\<forall>k < length tcs. process_one e c (tcs ! k) = Inr (ms ! k))"
  using assms
proof (induction tcs arbitrary: acc)
  case Nil
  then show ?case by simp
next
  case (Cons tc tcs)
  from Cons.prems obtain m where m: "process_one e c tc = Inr m" by auto
  from Cons.prems have "\<forall>tc \<in> set tcs. \<exists>m. process_one e c tc = Inr m" by simp
  from Cons.IH [OF this, of "acc @ [m]"] obtain ms where
    ms: "process_loop e c tcs (acc @ [m]) = Inr ((acc @ [m]) @ ms)" "length ms = length tcs"
        "\<forall>k < length tcs. process_one e c (tcs ! k) = Inr (ms ! k)" by blast
  have "\<forall>k < length (tc # tcs). process_one e c ((tc # tcs) ! k) = Inr ((m # ms) ! k)"
  proof (intro allI impI)
    fix k assume "k < length (tc # tcs)"
    then show "process_one e c ((tc # tcs) ! k) = Inr ((m # ms) ! k)"
      using m ms(3) by (cases k) auto
  qed
  with m ms(1,2) show ?case
    by (intro exI [of _ "m # ms"]) simp
qed

lemma process_loop_ok_iff:
  "process_loop e c tcs acc = Inr out \<Longrightarrow>
     \<exists>ms. out = acc @ ms \<and> length ms = length tcs
        \<and> (\<forall>k < length tcs. process_one e c (tcs ! k) = Inr (ms ! k))"
proof (induction tcs arbitrary: acc)
  case Nil
  then show ?case by simp
next
  case (Cons tc tcs)
  from Cons.prems obtain m where m: "process_one e c tc = Inr m"
    and r: "process_loop e c tcs (acc @ [m]) = Inr out"
    by (auto split: sum.splits)
  from Cons.IH [OF r] obtain ms where
    ms: "out = (acc @ [m]) @ ms" "length ms = length tcs"
        "\<forall>k < length tcs. process_one e c (tcs ! k) = Inr (ms ! k)" by blast
  have "\<forall>k < length (tc # tcs). process_one e c ((tc # tcs) ! k) = Inr ((m # ms) ! k)"
  proof (intro allI impI)
    fix k assume "k < length (tc # tcs)"
    then show "process_one e c ((tc # tcs) ! k) = Inr ((m # ms) ! k)"
      using m ms(3) by (cases k) auto
  qed
  with ms(1,2) show ?case
    by (intro exI [of _ "m # ms"]) simp
qed

lemma process_loop_some_failure:
  assumes "\<forall>tc \<in> set tcs. (\<exists>m. process_one e c tc = Inr m) \<or> process_one e c tc = Inl x"
    and "\<exists>tc \<in> set tcs. process_one e c tc = Inl x"
  shows "process_loop e c tcs acc = Inl x"
  using assms
  by (induction tcs arbitrary: acc) (auto split: sum.splits)

lemma process_tool_calls_order:
  assumes "process_tool_calls e c calls = Inr tms"
  shows "\<exists>items. py_iter calls = Inr items \<and> length tms = length items
           \<and> (\<forall>k < length items. process_one e c (items ! k) = Inr (tms ! k))"
proof -
  from assms obtain items where it: "py_iter calls = Inr items"
    and lp: "process_loop e c items [] = Inr tms"
    by (auto simp: process_tool_calls_def split: sum.splits)
  from process_loop_ok_iff [OF lp] it show ?thesis by auto
qed

lemma sample_env_post: "requests_post (sample_env rs) = scripted rs"
  by (simp add: sample_env_def)

lemma sample_env_loads: "json_loads (sample_env rs) = sample_loads"
  by (simp add: sample_env_def)

lemma sample_decode_arguments:
  "sample_loads arguments_text = Some (PDict [(''a'', PInt 1), (''b'', PInt 2)])"
  by (simp add: sample_loads_def)

lemma sample_decode_brace: "sample_loads ''{'' = None"
  by (simp add: sample_loads_def arguments_text_def stop_body_def calls_body_def
      broken_body_def no_calls_body_def)

lemma sample_decode_calls:
  "sample_loads calls_body =
     Some (PDict [(''choices'', PList [PDict [(''message'', PDict [(''content'', PNone),
              (''tool_calls'', PList [sum_call ''c1'' arguments_text])]),
            (''finish_reason'', PStr ''tool_calls'')]])])"
  by (simp add: sample_loads_def choice_body_def calls_body_def arguments_text_def stop_body_def)

lemma ok_status: "status_code (ok b) = 200"
  by (simp add: ok_def)

lemma ok_text: "resp_text (ok b) = b"
  by (simp add: ok_def)

text \<open>
  Claim C1. Let the tool calls be \<open>N\<close> dicts, the \<open>k\<close>-th with an \<^verbatim>\<open>id\<close> \<open>i k\<close>
  and a \<^verbatim>\<open>function\<close> dict whose \<^verbatim>\<open>name\<close> is the string \<open>nm k\<close> and whose
  \<^verbatim>\<open>arguments\<close> is a string that decodes to \<open>v k\<close>. Then \<^verbatim>\<open>_process_tool_calls\<close>
  returns a list of exactly \<open>N\<close> messages, and its \<open>k\<close>-th message is the TOOL-role
  message with \<^verbatim>\<open>tool_call_id\<close> \<open>i k\<close>, \<^verbatim>\<open>name\<close> \<open>nm k\<close> and, as content, the
  string that \<^verbatim>\<open>_call_tool\<close> returns for \<open>nm k\<close> and \<open>v k\<close>.
\<close>

theorem process_tool_calls_in_order:
  assumes wf: "\<And>k. k < length tcs \<Longrightarrow>
      tcs ! k = PDict (d k) \<and> map_of (d k) ''id'' = Some (i k)
      \<and> map_of (d k) ''function'' = Some (PDict (f k))
      \<and> map_of (f k) ''name'' = Some (PStr (nm k))
      \<and> map_of (f k) ''arguments'' = Some (PStr (a k))
      \<and> json_loads e (a k) = Some (v k)"
  shows "\<exists>ms. process_tool_calls e c (PList tcs) = Inr ms \<and> length ms = length tcs
    \<and> (\<forall>k < length tcs. \<exists>s. call_tool c (PStr (nm k)) (v k) = Inr s
          \<and> ms ! k = \<lparr> role = TOOL, content = PStr s, tool_calls = PNone,
                        name = PStr (nm k), tool_call_id = i k \<rparr>)"
proof -
  have one: "\<exists>s. call_tool c (PStr (nm k)) (v k) = Inr s
      \<and> process_one e c (tcs ! k) = Inr \<lparr> role = TOOL, content = PStr s, tool_calls = PNone,
                        name = PStr (nm k), tool_call_id = i k \<rparr>" if "k < length tcs" for k
  proof -
    from call_tool_str obtain s where s: "call_tool c (PStr (nm k)) (v k) = Inr s" by blast
    from wf [OF that] have "process_one e c (tcs ! k) =
      (case json_loads e (a k) of
       None \<Rightarrow> Inl JSONDecodeError
     | Some v \<Rightarrow> (case call_tool c (PStr (nm k)) v of
         Inl x \<Rightarrow> Inl x
       | Inr s \<Rightarrow> Inr \<lparr> role = TOOL, content = PStr s, tool_calls = PNone,
                        name = PStr (nm k), tool_call_id = i k \<rparr>))"
      by (simp add: process_one_wf)
    with wf [OF that] s show ?thesis by simp
  qed
  have "\<forall>tc \<in> set tcs. \<exists>m. process_one e c tc = Inr m"
    using one by (metis in_set_conv_nth)
  from process_loop_all_ok [OF this, of "[]"] obtain ms where
    ms: "process_loop e c tcs [] = Inr ms" "length ms = length tcs"
        "\<forall>k < length tcs. process_one e c (tcs ! k) = Inr (ms ! k)" by auto
  have "\<forall>k < length tcs. \<exists>s. call_tool c (PStr (nm k)) (v k) = Inr s
          \<and> ms ! k = \<lparr> role = TOOL, content = PStr s, tool_calls = PNone,
                        name = PStr (nm k), tool_call_id = i k \<rparr>"
  proof (intro allI impI)
    fix k assume k: "k < length tcs"
    from one [OF k] ms(3) k show "\<exists>s. call_tool c (PStr (nm k)) (v k) = Inr s
          \<and> ms ! k = \<lparr> role = TOOL, content = PStr s, tool_calls = PNone,
                        name = PStr (nm k), tool_call_id = i k \<rparr>" by auto
  qed
  with ms(1,2) show ?thesis by (auto simp: process_tool_calls_def)
qed

theorem process_tool_calls_in_order_witness:
  "process_tool_calls (sample_env []) sample_client
       (PList [sum_call ''c1'' arguments_text, sum_call ''c2'' arguments_text]) =
     Inr [\<lparr> role = TOOL, content = PStr ''3'', tool_calls = PNone,
             name = PStr ''sum'', tool_call_id = PStr ''c1'' \<rparr>,
          \<lparr> role = TOOL, content = PStr ''3'', tool_calls = PNone,
             name = PStr ''sum'', tool_call_id = PStr ''c2'' \<rparr>]"
proof -
  let ?tcs = "[sum_call ''c1'' arguments_text, sum_call ''c2'' arguments_text]"
  let ?id = "\<lambda>k::nat. if k = 0 then ''c1'' else ''c2''"
  have h: "k < length ?tcs \<Longrightarrow>
      ?tcs ! k = PDict (sum_call_dict (?id k) arguments_text)
      \<and> map_of (sum_call_dict (?id k) arguments_text) ''id'' = Some (PStr (?id k))
      \<and> map_of (sum_call_dict (?id k) arguments_text) ''function'' = Some (PDict (call_fields arguments_text))
      \<and> map_of (call_fields arguments_text) ''name'' = Some (PStr ''sum'')
      \<and> map_of (call_fields arguments_text) ''arguments'' = Some (PStr arguments_text)
      \<and> json_loads (sample_env []) arguments_text = Some (PDict [(''a'', PInt 1), (''b'', PInt 2)])" for k
    by (cases k) (simp_all add: sum_call_def sum_call_dict_def call_fields_def sample_env_def
        sample_decode_arguments)
  from process_tool_calls_in_order [of ?tcs "\<lambda>k. sum_call_dict (?id k) arguments_text"
      "\<lambda>k. PStr (?id k)" "\<lambda>k. call_fields arguments_text" "\<lambda>k. ''sum''" "\<lambda>k. arguments_text"
      "sample_env []" "\<lambda>k. PDict [(''a'', PInt 1), (''b'', PInt 2)]" sample_client, OF h]
  obtain ms where ms: "process_tool_calls (sample_env []) sample_client (PList ?tcs) = Inr ms"
    "length ms = 2"
    "\<forall>k<2. \<exists>s. call_tool sample_client (PStr ''sum'') (PDict [(''a'', PInt 1), (''b'', PInt 2)]) = Inr s
       \<and> ms ! k = \<lparr> role = TOOL, content = PStr s, tool_calls = PNone,
                        name = PStr ''sum'', tool_call_id = PStr (?id k) \<rparr>"
    by auto
  have ct: "call_tool sample_client (PStr ''sum'') (PDict [(''a'', PInt 1), (''b'', PInt 2)]) = Inr ''3''"
    by (simp add: sample_client_def sample_sum)
  from ms(3) ct have "ms ! 0 = \<lparr> role = TOOL, content = PStr ''3'', tool_calls = PNone,
                        name = PStr ''sum'', tool_call_id = PStr ''c1'' \<rparr>"
    and "ms ! 1 = \<lparr> role = TOOL, content = PStr ''3'', tool_calls = PNone,
                        name = PStr ''sum'', tool_call_id = PStr ''c2'' \<rparr>"
    by auto
  with ms(2) have "ms = [\<lparr> role = TOOL, content = PStr ''3'', tool_calls = PNone,
             name = PStr ''sum'', tool_call_id = PStr ''c1'' \<rparr>,
          \<lparr> role = TOOL, content = PStr ''3'', tool_calls = PNone,
             name = PStr ''sum'', tool_call_id = PStr ''c2'' \<rparr>]"
    by (cases ms; cases "tl ms") (auto simp: nth_Cons')
  with ms(1) show ?thesis by simp
qed

section \<open>Properties of the completion loop\<close>

lemma get_completion_messages_prefix:
  "prefix (messages st) (messages (snd (get_completion e c n st)))"
proof (induction n arbitrary: st)
  case 0
  show ?case by simp
next
  case (Suc n)
  have step: "prefix (messages st) (messages (snd (get_completion e c n st')))"
    if "messages st' = messages st @ extra" for st' extra
  proof -
    have "prefix (messages st') (messages (snd (get_completion e c n st')))" by (rule Suc.IH)
    with that show ?thesis by (metis append_prefixD)
  qed
  show ?case
    by (auto simp: Let_def intro!: step split: sum.splits)
qed

lemma get_completion_urls:
  "\<exists>new. sent (snd (get_completion e c n st)) = sent st @ new
     \<and> (\<forall>r \<in> set new. url r = self_endpoint c)"
proof (induction n arbitrary: st)
  case 0
  show ?case by simp
next
  case (Suc n)
  let ?req = "build_request c (messages st)"
  have u: "url ?req = self_endpoint c" by (simp add: build_request_def)
  have step: "\<exists>new. sent (snd (get_completion e c n st')) = sent st @ new
     \<and> (\<forall>r \<in> set new. url r = self_endpoint c)"
    if "sent st' = sent st @ [?req]" for st'
  proof -
    from Suc.IH [of st'] obtain new where
      "sent (snd (get_completion e c n st')) = sent st' @ new" "\<forall>r \<in> set new. url r = self_endpoint c"
      by blast
    with that u show ?thesis by (intro exI [of _ "?req # new"]) simp
  qed
  have stop: "\<exists>new. sent st @ [?req] = sent st @ new \<and> (\<forall>r \<in> set new. url r = self_endpoint c)"
    using u by (intro exI [of _ "[?req]"]) simp
  show ?case
    using stop by (auto simp: Let_def intro!: step split: sum.splits)
qed

lemma sample_client_init: "init ''https://host'' ''gpt'' ''key'' (Some [sum_tool]) = Inr sample_client"
proof -
  have "tool_name sum_tool = ''sum''" "schema sum_tool = PDict [(''name'', PStr ''sum'')]"
    by (simp_all add: sum_tool_def)
  then show ?thesis
    by (simp add: init_def strip_def isspace_def tools_by_name_def py_or_def sample_client_def)
qed

lemma sample_run:
  "get_completion (sample_env [ok calls_body, ok stop_body]) sample_client (Suc (Suc 0))
       \<lparr> messages = [user_says ''1+2?''], sent = [] \<rparr> =
     (Returned \<lparr> role = AI, content = PStr ''3'', tool_calls = PNone,
                 name = PNone, tool_call_id = PNone \<rparr>,
      \<lparr> messages = [user_says ''1+2?'',
          \<lparr> role = AI, content = PNone, tool_calls = PList [sum_call ''c1'' arguments_text],
             name = PNone, tool_call_id = PNone \<rparr>,
          \<lparr> role = TOOL, content = PStr ''3'', tool_calls = PNone,
             name = PStr ''sum'', tool_call_id = PStr ''c1'' \<rparr>],
        sent = [build_request sample_client [user_says ''1+2?''],
          build_request sample_client [user_says ''1+2?'',
          \<lparr> role = AI, content = PNone, tool_calls = PList [sum_call ''c1'' arguments_text],
             name = PNone, tool_call_id = PNone \<rparr>,
          \<lparr> role = TOOL, content = PStr ''3'', tool_calls = PNone,
             name = PStr ''sum'', tool_call_id = PStr ''c1'' \<rparr>]] \<rparr>)"
  by code_simp

lemma sample_batch:
  "process_tool_calls (sample_env [ok calls_body, ok stop_body]) sample_client
       (PList [sum_call ''c1'' arguments_text]) =
     Inr [\<lparr> role = TOOL, content = PStr ''3'', tool_calls = PNone,
             name = PStr ''sum'', tool_call_id = PStr ''c1'' \<rparr>]"
  by code_simp

text \<open>
  Claim C2. The transport answers the request of this call with status 200 and a body
  whose \<^verbatim>\<open>choices\<close> is a list that starts with a dict \<open>ch\<close>; the \<^verbatim>\<open>message\<close> of
  \<open>ch\<close> is a dict \<open>md\<close> or is absent (then \<open>md\<close> is empty), and its
  \<^verbatim>\<open>finish_reason\<close> is anything but \<^verbatim>\<open>"tool_calls"\<close>, or absent. Then
  \<^verbatim>\<open>get_completion\<close> returns the AI-role message whose content and tool calls are the
  \<^verbatim>\<open>content\<close> and \<^verbatim>\<open>tool_calls\<close> entries of \<open>md\<close> (\<^verbatim>\<open>None\<close> where absent); the
  conversation is as before and exactly one request, the one of this call, was sent.
\<close>

theorem get_completion_final:
  assumes "requests_post e (sent st @ [build_request c (messages st)]) = Inr resp"
    and "status_code resp = 200"
    and "json_loads e (resp_text resp) = Some (PDict body)"
    and "map_of body ''choices'' = Some (PList (PDict ch # others))"
    and "map_of ch ''message'' = Some (PDict md) \<or> (map_of ch ''message'' = None \<and> md = [])"
    and "map_of ch ''finish_reason'' \<noteq> Some (PStr ''tool_calls'')"
  shows "get_completion e c (Suc n) st =
     (Returned \<lparr> role = AI,
                 content = (case map_of md ''content'' of None \<Rightarrow> PNone | Some x \<Rightarrow> x),
                 tool_calls = (case map_of md ''tool_calls'' of None \<Rightarrow> PNone | Some x \<Rightarrow> x),
                 name = PNone, tool_call_id = PNone \<rparr>,
      \<lparr> messages = messages st, sent = sent st @ [build_request c (messages st)] \<rparr>)"
  using assms
  by (auto simp: first_choice_def ai_response_of_def split: option.splits)

theorem get_completion_final_witness:
  "get_completion (sample_env [ok stop_body]) sample_client (Suc 0)
       \<lparr> messages = [user_says ''1+2?''], sent = [] \<rparr> =
     (Returned \<lparr> role = AI, content = PStr ''3'', tool_calls = PNone,
                 name = PNone, tool_call_id = PNone \<rparr>,
      \<lparr> messages = [user_says ''1+2?''],
        sent = [build_request sample_client [user_says ''1+2?'']] \<rparr>)"
  using get_completion_final [of "sample_env [ok stop_body]"
      "\<lparr> messages = [user_says ''1+2?''], sent = [] \<rparr>" sample_client "ok stop_body"
      "[(''choices'', PList [PDict [(''message'', PDict [(''content'', PStr ''3'')]),
                                        (''finish_reason'', PStr ''stop'')]])]"
      "[(''message'', PDict [(''content'', PStr ''3'')]), (''finish_reason'', PStr ''stop'')]"
      "[]" "[(''content'', PStr ''3'')]" 0]
  by (simp add: sample_env_def scripted_def ok_def sample_loads_def stop_body_def
      arguments_text_def choice_body_def)

text \<open>
  Claim C3. When the transport answers the request of this call with a status other than
  200, \<^verbatim>\<open>get_completion\<close> raises the exception of line 114, whose message holds the
  status code in decimal and the body of the response as received, and the conversation
  is the one the caller passed in: nothing was appended.
\<close>

theorem get_completion_http_error:
  assumes "requests_post e (sent st @ [build_request c (messages st)]) = Inr resp"
    and "status_code resp \<noteq> 200"
  shows "get_completion e c (Suc n) st =
     (Raised (PyException (''HTTP '' @ str_int (status_code resp) @ '': '' @ resp_text resp)),
      \<lparr> messages = messages st, sent = sent st @ [build_request c (messages st)] \<rparr>)"
  using assms by (simp add: first_choice_def)

theorem get_completion_http_error_witness:
  "get_completion (sample_env [\<lparr> status_code = 503, resp_text = ''busy'' \<rparr>]) sample_client (Suc 0)
       \<lparr> messages = [user_says ''1+2?''], sent = [] \<rparr> =
     (Raised (PyException ''HTTP 503: busy''),
      \<lparr> messages = [user_says ''1+2?''],
        sent = [build_request sample_client [user_says ''1+2?'']] \<rparr>)"
proof -
  have s: "str_int 503 = ''503''" by code_simp
  show ?thesis
    using get_completion_http_error [of "sample_env [\<lparr> status_code = 503, resp_text = ''busy'' \<rparr>]"
      "\<lparr> messages = [user_says ''1+2?''], sent = [] \<rparr>" sample_client
      "\<lparr> status_code = 503, resp_text = ''busy'' \<rparr>" 0]
    by (simp add: sample_env_def scripted_def s)
qed

text \<open>
  Claim C7. Let the tool calls be dicts with an \<^verbatim>\<open>id\<close>, a \<^verbatim>\<open>function\<close> dict, a string
  \<^verbatim>\<open>name\<close> and a string \<^verbatim>\<open>arguments\<close>, and let the arguments of at least one of them
  (the call number \<open>b\<close>) not decode. Then \<^verbatim>\<open>_process_tool_calls\<close> raises
  \<^verbatim>\<open>JSONDecodeError\<close> and returns no list, whatever the other calls are; and a
  \<^verbatim>\<open>get_completion\<close> whose response asks for these calls ends with that exception:
  the AI message has been appended, no TOOL message has, and no second request is sent.
\<close>

theorem malformed_arguments_fail_batch:
  assumes wf: "\<And>k. k < length tcs \<Longrightarrow>
      tcs ! k = PDict (d k) \<and> map_of (d k) ''id'' = Some (i k)
      \<and> map_of (d k) ''function'' = Some (PDict (f k))
      \<and> map_of (f k) ''name'' = Some (PStr (nm k))
      \<and> map_of (f k) ''arguments'' = Some (PStr (a k))"
    and bad: "b < length tcs" "json_loads e (a b) = None"
  shows "process_tool_calls e c (PList tcs) = Inl JSONDecodeError
    \<and> (requests_post e (sent st @ [build_request c (messages st)]) = Inr resp
         \<and> status_code resp = 200
         \<and> json_loads e (resp_text resp) = Some (PDict body)
         \<and> map_of body ''choices'' = Some (PList (PDict ch # others))
         \<and> map_of ch ''message'' = Some (PDict md)
         \<and> map_of ch ''finish_reason'' = Some (PStr ''tool_calls'')
         \<and> map_of md ''tool_calls'' = Some (PList tcs)
       \<longrightarrow> get_completion e c (Suc n) st =
          (Raised JSONDecodeError,
           \<lparr> messages = messages st @
               [\<lparr> role = AI,
                   content = (case map_of md ''content'' of None \<Rightarrow> PNone | Some x \<Rightarrow> x),
                   tool_calls = PList tcs, name = PNone, tool_call_id = PNone \<rparr>],
             sent = sent st @ [build_request c (messages st)] \<rparr>))"
proof -
  have one: "(\<exists>m. process_one e c (tcs ! k) = Inr m) \<or> process_one e c (tcs ! k) = Inl JSONDecodeError"
    if "k < length tcs" for k
  proof -
    obtain s where s: "call_tool c (PStr (nm k)) v = Inr (s v)" for v
      using call_tool_str by metis
    from wf [OF that] have "process_one e c (tcs ! k) =
      (case json_loads e (a k) of
         None \<Rightarrow> Inl JSONDecodeError
       | Some v \<Rightarrow> (case call_tool c (PStr (nm k)) v of
           Inl x \<Rightarrow> Inl x
         | Inr s \<Rightarrow> Inr \<lparr> role = TOOL, content = PStr s, tool_calls = PNone,
                          name = PStr (nm k), tool_call_id = i k \<rparr>))"
      by (simp add: process_one_wf)
    then show ?thesis by (simp add: s split: option.splits)
  qed
  have all: "\<forall>tc \<in> set tcs. (\<exists>m. process_one e c tc = Inr m) \<or> process_one e c tc = Inl JSONDecodeError"
    using one by (metis in_set_conv_nth)
  from wf [OF bad(1)] bad(2) have "process_one e c (tcs ! b) = Inl JSONDecodeError"
    by (simp add: process_one_wf)
  with bad(1) have some: "\<exists>tc \<in> set tcs. process_one e c tc = Inl JSONDecodeError"
    using nth_mem by blast
  have batch: "process_tool_calls e c (PList tcs) = Inl JSONDecodeError"
    using process_loop_some_failure [OF all some] by (simp add: process_tool_calls_def)
  then show ?thesis
    by (auto simp: first_choice_def ai_response_of_def split: option.splits)
qed

theorem malformed_arguments_fail_batch_witness:
  "process_tool_calls (sample_env [ok broken_body]) sample_client
       (PList [sum_call ''c1'' arguments_text, sum_call ''c2'' ''{'']) = Inl JSONDecodeError
   \<and> get_completion (sample_env [ok broken_body]) sample_client (Suc 0)
       \<lparr> messages = [user_says ''1+2?''], sent = [] \<rparr> =
     (Raised JSONDecodeError,
      \<lparr> messages = [user_says ''1+2?'',
          \<lparr> role = AI, content = PNone, tool_calls = PList [sum_call ''c1'' ''{''],
             name = PNone, tool_call_id = PNone \<rparr>],
        sent = [build_request sample_client [user_says ''1+2?'']] \<rparr>)"
proof -
  let ?e = "sample_env [ok broken_body]"
  let ?two = "[sum_call ''c1'' arguments_text, sum_call ''c2'' ''{'']"
  let ?id = "\<lambda>k::nat. if k = 0 then ''c1'' else ''c2''"
  let ?arg = "\<lambda>k::nat. if k = 0 then arguments_text else ''{''"
  have h2: "k < length ?two \<Longrightarrow>
      ?two ! k = PDict (sum_call_dict (?id k) (?arg k))
      \<and> map_of (sum_call_dict (?id k) (?arg k)) ''id'' = Some (PStr (?id k))
      \<and> map_of (sum_call_dict (?id k) (?arg k)) ''function'' = Some (PDict (call_fields (?arg k)))
      \<and> map_of (call_fields (?arg k)) ''name'' = Some (PStr ''sum'')
      \<and> map_of (call_fields (?arg k)) ''arguments'' = Some (PStr (?arg k))" for k
    by (cases k) (simp_all add: sum_call_def sum_call_dict_def call_fields_def)
  have b2: "Suc 0 < length ?two" "json_loads ?e (?arg (Suc 0)) = None"
    by (simp_all add: sample_env_def sample_decode_brace)
  have first: "process_tool_calls ?e sample_client (PList ?two) = Inl JSONDecodeError"
    using malformed_arguments_fail_batch [of ?two "\<lambda>k. sum_call_dict (?id k) (?arg k)"
      "\<lambda>k. PStr (?id k)" "\<lambda>k. call_fields (?arg k)" "\<lambda>k. ''sum''" ?arg "Suc 0" ?e, OF h2 b2]
    by blast
  let ?one = "[sum_call ''c1'' ''{'']"
  have h1: "k < length ?one \<Longrightarrow>
      ?one ! k = PDict (sum_call_dict ''c1'' ''{'')
      \<and> map_of (sum_call_dict ''c1'' ''{'') ''id'' = Some (PStr ''c1'')
      \<and> map_of (sum_call_dict ''c1'' ''{'') ''function'' = Some (PDict (call_fields ''{''))
      \<and> map_of (call_fields ''{'') ''name'' = Some (PStr ''sum'')
      \<and> map_of (call_fields ''{'') ''arguments'' = Some (PStr ''{'')" for k
    by (simp add: sum_call_def sum_call_dict_def call_fields_def)
  have b1: "0 < length ?one" "json_loads ?e ''{'' = None"
    by (simp_all add: sample_env_def sample_decode_brace)
  have second: "get_completion ?e sample_client (Suc 0)
       \<lparr> messages = [user_says ''1+2?''], sent = [] \<rparr> =
     (Raised JSONDecodeError,
      \<lparr> messages = [user_says ''1+2?'',
          \<lparr> role = AI, content = PNone, tool_calls = PList ?one,
             name = PNone, tool_call_id = PNone \<rparr>],
        sent = [build_request sample_client [user_says ''1+2?'']] \<rparr>)"
    using malformed_arguments_fail_batch [of ?one "\<lambda>k. sum_call_dict ''c1'' ''{''"
      "\<lambda>k. PStr ''c1''" "\<lambda>k. call_fields ''{''" "\<lambda>k. ''sum''" "\<lambda>k. ''{''" 0 ?e
      sample_client "\<lparr> messages = [user_says ''1+2?''], sent = [] \<rparr>" "ok broken_body"
      "[(''choices'', PList [PDict [(''message'', PDict [(''content'', PNone), (''tool_calls'', PList ?one)]),
                                        (''finish_reason'', PStr ''tool_calls'')]])]"
      "[(''message'', PDict [(''content'', PNone), (''tool_calls'', PList ?one)]),
        (''finish_reason'', PStr ''tool_calls'')]"
      "[]" "[(''content'', PNone), (''tool_calls'', PList ?one)]" 0, OF h1 b1]
    by (simp add: sample_env_def scripted_def ok_def sample_loads_def stop_body_def calls_body_def
      broken_body_def arguments_text_def choice_body_def)
  from first second show ?thesis by simp
qed

text \<open>
  Claim C8. Whatever the transport, the decoder and the tools do, and however many calls
  of \<^verbatim>\<open>get_completion\<close> have been entered (\<open>n\<close>), the conversation reached is the
  caller's conversation with messages appended: the original messages are its prefix, so
  none was removed, changed or moved. And when the response to this call has
  \<^verbatim>\<open>finish_reason\<close> \<^verbatim>\<open>"tool_calls"\<close> and the processing of its tool calls returns the
  messages \<open>tms\<close>, then \<open>tms\<close> holds one message per tool call, the \<open>k\<close>-th made from
  the \<open>k\<close>-th call, and the call continues as \<^verbatim>\<open>get_completion\<close> on the conversation
  extended by the AI message followed by \<open>tms\<close>.
\<close>

theorem conversation_only_grows:
  "prefix (messages st) (messages (snd (get_completion e c n st)))
   \<and> (requests_post e (sent st @ [build_request c (messages st)]) = Inr resp
        \<and> status_code resp = 200
        \<and> json_loads e (resp_text resp) = Some (PDict body)
        \<and> map_of body ''choices'' = Some (PList (PDict ch # others))
        \<and> map_of ch ''message'' = Some (PDict md)
        \<and> map_of ch ''finish_reason'' = Some (PStr ''tool_calls'')
        \<and> map_of md ''tool_calls'' = Some calls
        \<and> process_tool_calls e c calls = Inr tms
      \<longrightarrow> (\<exists>items. py_iter calls = Inr items \<and> length tms = length items
              \<and> (\<forall>k < length items. process_one e c (items ! k) = Inr (tms ! k)))
          \<and> get_completion e c (Suc m) st =
              get_completion e c m
                \<lparr> messages = messages st @
                    \<lparr> role = AI,
                      content = (case map_of md ''content'' of None \<Rightarrow> PNone | Some x \<Rightarrow> x),
                      tool_calls = calls, name = PNone, tool_call_id = PNone \<rparr> # tms,
                  sent = sent st @ [build_request c (messages st)] \<rparr>)"
proof (intro conjI impI)
  show "prefix (messages st) (messages (snd (get_completion e c n st)))"
    by (rule get_completion_messages_prefix)
next
  assume h: "requests_post e (sent st @ [build_request c (messages st)]) = Inr resp
        \<and> status_code resp = 200
        \<and> json_loads e (resp_text resp) = Some (PDict body)
        \<and> map_of body ''choices'' = Some (PList (PDict ch # others))
        \<and> map_of ch ''message'' = Some (PDict md)
        \<and> map_of ch ''finish_reason'' = Some (PStr ''tool_calls'')
        \<and> map_of md ''tool_calls'' = Some calls
        \<and> process_tool_calls e c calls = Inr tms"
  then show "\<exists>items. py_iter calls = Inr items \<and> length tms = length items
              \<and> (\<forall>k < length items. process_one e c (items ! k) = Inr (tms ! k))"
    using process_tool_calls_order by blast
  from h show "get_completion e c (Suc m) st =
              get_completion e c m
                \<lparr> messages = messages st @
                    \<lparr> role = AI,
                      content = (case map_of md ''content'' of None \<Rightarrow> PNone | Some x \<Rightarrow> x),
                      tool_calls = calls, name = PNone, tool_call_id = PNone \<rparr> # tms,
                  sent = sent st @ [build_request c (messages st)] \<rparr>"
    by (cases st) (auto simp: first_choice_def ai_response_of_def split: option.splits)
qed

theorem conversation_only_grows_witness:
  "prefix [user_says ''1+2?'']
     (messages (snd (get_completion (sample_env [ok calls_body, ok stop_body]) sample_client
         (Suc (Suc 0)) \<lparr> messages = [user_says ''1+2?''], sent = [] \<rparr>)))
   \<and> get_completion (sample_env [ok calls_body, ok stop_body]) sample_client (Suc (Suc 0))
         \<lparr> messages = [user_says ''1+2?''], sent = [] \<rparr> =
       get_completion (sample_env [ok calls_body, ok stop_body]) sample_client (Suc 0)
         \<lparr> messages = [user_says ''1+2?'',
             \<lparr> role = AI, content = PNone, tool_calls = PList [sum_call ''c1'' arguments_text],
                name = PNone, tool_call_id = PNone \<rparr>,
             \<lparr> role = TOOL, content = PStr ''3'', tool_calls = PNone,
                name = PStr ''sum'', tool_call_id = PStr ''c1'' \<rparr>],
           sent = [build_request sample_client [user_says ''1+2?'']] \<rparr>"
proof -
  let ?e = "sample_env [ok calls_body, ok stop_body]"
  let ?st = "\<lparr> messages = [user_says ''1+2?''], sent = [] \<rparr>"
  let ?calls = "PList [sum_call ''c1'' arguments_text]"
  let ?md = "[(''content'', PNone), (''tool_calls'', ?calls)]"
  let ?ch = "[(''message'', PDict ?md), (''finish_reason'', PStr ''tool_calls'')]"
  let ?body = "[(''choices'', PList [PDict ?ch])]"
  let ?tms = "[\<lparr> role = TOOL, content = PStr ''3'', tool_calls = PNone,
             name = PStr ''sum'', tool_call_id = PStr ''c1'' \<rparr>]"
  have h: "requests_post ?e (sent ?st @ [build_request sample_client (messages ?st)]) = Inr (ok calls_body)
        \<and> status_code (ok calls_body) = 200
        \<and> json_loads ?e (resp_text (ok calls_body)) = Some (PDict ?body)
        \<and> map_of ?body ''choices'' = Some (PList (PDict ?ch # []))
        \<and> map_of ?ch ''message'' = Some (PDict ?md)
        \<and> map_of ?ch ''finish_reason'' = Some (PStr ''tool_calls'')
        \<and> map_of ?md ''tool_calls'' = Some ?calls
        \<and> process_tool_calls ?e sample_client ?calls = Inr ?tms"
    by (simp add: sample_env_post sample_env_loads scripted_def ok_status ok_text sample_batch
        sample_decode_calls)
  from conversation_only_grows [of ?st ?e sample_client "Suc (Suc 0)" "ok calls_body"
      ?body ?ch "[]" ?md ?calls ?tms "Suc 0"] h
  have "prefix (messages ?st) (messages (snd (get_completion ?e sample_client (Suc (Suc 0)) ?st)))"
    and "get_completion ?e sample_client (Suc (Suc 0)) ?st =
       get_completion ?e sample_client (Suc 0)
         \<lparr> messages = messages ?st @
             \<lparr> role = AI, content = (case map_of ?md ''content'' of None \<Rightarrow> PNone | Some x \<Rightarrow> x),
               tool_calls = ?calls, name = PNone, tool_call_id = PNone \<rparr> # ?tms,
           sent = sent ?st @ [build_request sample_client (messages ?st)] \<rparr>"
    by blast+
  then show ?thesis by (simp del: get_completion.simps)
qed

text \<open>
  Claim C9. The client that \<^verbatim>\<open>__init__\<close> returns for an endpoint \<open>ep\<close> and a
  deployment name \<open>dn\<close> holds the URL \<open>ep\<close>, \<^verbatim>\<open>/openai/deployments/\<close>, \<open>dn\<close>,
  \<^verbatim>\<open>/chat/completions\<close> joined in this order, and every request that
  \<^verbatim>\<open>get_completion\<close> sends, in any round, goes to exactly this URL.
\<close>

theorem request_url:
  assumes "init ep dn key tools = Inr c"
  shows "self_endpoint c = ep @ ''/openai/deployments/'' @ dn @ ''/chat/completions''
    \<and> (\<exists>new. sent (snd (get_completion e c n st)) = sent st @ new
          \<and> (\<forall>r \<in> set new. url r = ep @ ''/openai/deployments/'' @ dn @ ''/chat/completions''))"
proof -
  from assms have u: "self_endpoint c = ep @ ''/openai/deployments/'' @ dn @ ''/chat/completions''"
    by (auto simp: init_def split: if_splits option.splits)
  with get_completion_urls [of e c n st] show ?thesis by simp
qed

theorem request_url_witness:
  "self_endpoint sample_client = ''https://host/openai/deployments/gpt/chat/completions''
   \<and> map url (sent (snd (get_completion (sample_env [ok calls_body, ok stop_body]) sample_client
         (Suc (Suc 0)) \<lparr> messages = [user_says ''1+2?''], sent = [] \<rparr>))) =
       [''https://host/openai/deployments/gpt/chat/completions'',
        ''https://host/openai/deployments/gpt/chat/completions'']"
  using request_url [OF sample_client_init, of "sample_env [ok calls_body, ok stop_body]"
      "Suc (Suc 0)" "\<lparr> messages = [user_says ''1+2?''], sent = [] \<rparr>"]
  unfolding sample_run
  by (simp add: build_request_def)

text \<open>
  Claim C10. The transport answers the request of this call with status 200 and a first
  choice whose \<^verbatim>\<open>finish_reason\<close> is \<^verbatim>\<open>"tool_calls"\<close>, while its message has no
  \<^verbatim>\<open>tool_calls\<close> entry or has \<^verbatim>\<open>null\<close> there. Then \<^verbatim>\<open>get_completion\<close> raises
  \<^verbatim>\<open>TypeError\<close> (the loop of line 120 iterates \<^verbatim>\<open>None\<close>) and returns no message,
  and the conversation it leaves behind is the caller's followed by the AI message.
\<close>

theorem get_completion_missing_tool_calls:
  assumes "requests_post e (sent st @ [build_request c (messages st)]) = Inr resp"
    and "status_code resp = 200"
    and "json_loads e (resp_text resp) = Some (PDict body)"
    and "map_of body ''choices'' = Some (PList (PDict ch # others))"
    and "map_of ch ''message'' = Some (PDict md) \<or> (map_of ch ''message'' = None \<and> md = [])"
    and "map_of ch ''finish_reason'' = Some (PStr ''tool_calls'')"
    and "map_of md ''tool_calls'' = None \<or> map_of md ''tool_calls'' = Some PNone"
  shows "get_completion e c (Suc n) st =
     (Raised TypeError,
      \<lparr> messages = messages st @
          [\<lparr> role = AI,
              content = (case map_of md ''content'' of None \<Rightarrow> PNone | Some x \<Rightarrow> x),
              tool_calls = PNone, name = PNone, tool_call_id = PNone \<rparr>],
        sent = sent st @ [build_request c (messages st)] \<rparr>)"
  using assms
  by (auto simp: first_choice_def ai_response_of_def process_tool_calls_def split: option.splits)

theorem get_completion_missing_tool_calls_witness:
  "get_completion (sample_env [ok no_calls_body]) sample_client (Suc 0)
       \<lparr> messages = [user_says ''1+2?''], sent = [] \<rparr> =
     (Raised TypeError,
      \<lparr> messages = [user_says ''1+2?'',
          \<lparr> role = AI, content = PNone, tool_calls = PNone, name = PNone, tool_call_id = PNone \<rparr>],
        sent = [build_request sample_client [user_says ''1+2?'']] \<rparr>)"
  using get_completion_missing_tool_calls [of "sample_env [ok no_calls_body]"
      "\<lparr> messages = [user_says ''1+2?''], sent = [] \<rparr>" sample_client "ok no_calls_body"
      "[(''choices'', PList [PDict [(''message'', PDict [(''content'', PNone)]),
                                        (''finish_reason'', PStr ''tool_calls'')]])]"
      "[(''message'', PDict [(''content'', PNone)]), (''finish_reason'', PStr ''tool_calls'')]"
      "[]" "[(''content'', PNone)]" 0]
  by (simp add: sample_env_def scripted_def ok_def sample_loads_def stop_body_def calls_body_def
      broken_body_def no_calls_body_def arguments_text_def choice_body_def)

end
